theory Spec2Isabelle
  imports Main "HOL-Library.Word"
begin

text \<open>
  A model of the catalog service's two source files: the version queries of
  \<open>model/version.go\<close> and the process start of package \<open>cmd\<close> (flags, \<open>readConfig\<close>,
  \<open>run\<close>, \<open>refresh\<close>). Definitions come first, then the properties.
\<close>

section \<open>The version read model (model/version.go)\<close>

subsection \<open>Rows\<close>

text \<open>
  Modelled from the spec: the element types \<open>File\<close> and \<open>Question\<close> of the two slices of a
  \<open>Version\<close> are declared in other files of package \<open>model\<close>. The spec describes a File as a
  relative path with a content blob and a Question as an opaque prompt-schema document.
  No query below reads them.
\<close>

datatype File = File string string

datatype Question = Question string

text \<open>
  The struct \<open>Version\<close>. The field \<open>Version\<close> of the source (the source-declared version
  string) is called \<open>VersionString\<close> here, since the record already carries that name.
  \<open>TemplateId\<close> is a \<open>uint\<close> and \<open>Revision\<close> an \<open>int\<close>; no arithmetic is done on either.
\<close>

record Version =
  EnvironmentId :: string
  TemplateId :: nat
  Revision :: int
  VersionString :: string
  MinimumRancherVersion :: string
  MaximumRancherVersion :: string
  UpgradeFrom :: string
  Files :: "File list"
  Questions :: "Question list"
  Readme :: string

text \<open>
  Modelled from the spec: the embedded struct \<open>Base\<close> is declared in another file of
  package \<open>model\<close>; it carries the database-assigned id of a row.
\<close>

record Base =
  ID :: nat

text \<open>The struct \<open>VersionModel\<close> embeds \<open>Base\<close> and \<open>Version\<close>.\<close>

record VersionModel =
  base :: Base
  version :: Version

text \<open>
  Modelled from the spec: the tables \<open>catalog_template\<close> and \<open>catalog\<close> are declared
  in other files of package \<open>model\<close>. Their rows carry here the columns that the two queries of
  this file name: \<open>id\<close>, \<open>catalog_id\<close> and \<open>folder_name\<close> of a template (fields \<open>t_id\<close>,
  \<open>t_catalog_id\<close>, \<open>t_folder_name\<close>), \<open>id\<close> and \<open>name\<close> of a catalog (fields \<open>c_id\<close>, \<open>c_name\<close>).
\<close>

record TemplateRow =
  t_id :: nat
  t_catalog_id :: nat
  t_folder_name :: string

record CatalogRow =
  c_id :: nat
  c_name :: string

text \<open>
  The database handle \<open>db\<close>, as the three tables the queries read. A query on it
  succeeds: a driver error, which \<open>Scan\<close> would record and both functions would drop, is
  not part of the model. Rows come in table order, the first table of the \<open>FROM\<close> clause
  outermost.
\<close>

record DB =
  catalog_version :: "VersionModel list"
  catalog_template :: "TemplateRow list"
  catalog :: "CatalogRow list"

subsection \<open>Zero values\<close>

definition zero_Version :: Version where
  "zero_Version = \<lparr>EnvironmentId = [], TemplateId = 0, Revision = 0, VersionString = [],
     MinimumRancherVersion = [], MaximumRancherVersion = [], UpgradeFrom = [],
     Files = [], Questions = [], Readme = []\<rparr>"

definition zero_VersionModel :: VersionModel where
  "zero_VersionModel = \<lparr>base = \<lparr>ID = 0\<rparr>, version = zero_Version\<rparr>"

subsection \<open>The two queries\<close>

text \<open>
  The \<open>WHERE\<close> clause shared by both queries, on one row of each of the three tables of
  the \<open>FROM\<close> clause. The first two placeholders are bound to \<open>environmentId\<close> and to the
  literal \<open>"global"\<close>. Strings are compared byte by byte.
\<close>

definition where_versions ::
  "string \<Rightarrow> string \<Rightarrow> string \<Rightarrow> VersionModel \<Rightarrow> TemplateRow \<Rightarrow> CatalogRow \<Rightarrow> bool" where
  "where_versions environmentId catalogName templateName v t c \<longleftrightarrow>
     (EnvironmentId (version v) = environmentId \<or> EnvironmentId (version v) = ''global'')
     \<and> TemplateId (version v) = t_id t
     \<and> t_catalog_id t = c_id c
     \<and> c_name c = catalogName
     \<and> t_folder_name t = templateName"

text \<open>
  \<open>SELECT catalog_version.* FROM catalog_version, catalog_template, catalog WHERE ...\<close>:
  the product of the three tables, filtered, projected on the version row. A version row
  is returned once for every pair of a template row and a catalog row it joins with.
\<close>

definition raw_versions :: "DB \<Rightarrow> string \<Rightarrow> string \<Rightarrow> string \<Rightarrow> VersionModel list" where
  "raw_versions db environmentId catalogName templateName =
     concat (map (\<lambda>v.
       concat (map (\<lambda>t.
         concat (map (\<lambda>c.
           if where_versions environmentId catalogName templateName v t c then [v] else [])
           (catalog db)))
         (catalog_template db)))
       (catalog_version db))"

text \<open>The query of \<open>LookupVersionModel\<close> adds \<open>AND catalog_version.revision = ?\<close>.\<close>

definition raw_version ::
  "DB \<Rightarrow> string \<Rightarrow> string \<Rightarrow> string \<Rightarrow> int \<Rightarrow> VersionModel list" where
  "raw_version db environmentId catalogName templateName revision =
     concat (map (\<lambda>v.
       concat (map (\<lambda>t.
         concat (map (\<lambda>c.
           if where_versions environmentId catalogName templateName v t c
              \<and> Revision (version v) = revision then [v] else [])
           (catalog db)))
         (catalog_template db)))
       (catalog_version db))"

text \<open>
  \<open>Scan\<close> into a single struct: the library scans every returned row into the same
  destination, one after the other, so the destination keeps its initial value when no
  row is returned and holds the last row otherwise. The error that \<open>Scan\<close> records for an
  empty result is dropped by the caller.
\<close>

definition Scan_struct :: "VersionModel \<Rightarrow> VersionModel list \<Rightarrow> VersionModel" where
  "Scan_struct dest rows = foldl (\<lambda>d row. row) dest rows"

text \<open>
  \<open>LookupVersionModel\<close> returns a pointer: \<open>None\<close> stands for \<open>nil\<close>, \<open>Some vm\<close> for a
  pointer to the struct \<open>vm\<close>. The function declares \<open>versionModel\<close> (the zero value),
  scans into it and returns its address.
\<close>

definition LookupVersionModel ::
  "DB \<Rightarrow> string \<Rightarrow> string \<Rightarrow> string \<Rightarrow> int \<Rightarrow> VersionModel option" where
  "LookupVersionModel db environmentId catalogName templateName revision =
     Some (Scan_struct zero_VersionModel
       (raw_version db environmentId catalogName templateName revision))"

text \<open>
  \<open>LookupVersions\<close> scans into a slice (one element per returned row, in order) and
  appends the embedded \<open>Version\<close> of each element to the result. The empty list stands for
  the \<open>nil\<close> slice the function returns when no row is appended.
\<close>

definition LookupVersions :: "DB \<Rightarrow> string \<Rightarrow> string \<Rightarrow> string \<Rightarrow> Version list" where
  "LookupVersions db environmentId catalogName templateName =
     foldl (\<lambda>versions versionModel. versions @ [version versionModel]) []
       (raw_versions db environmentId catalogName templateName)"

text \<open>
  Whether a catalog name and a template name resolve: some template row with that folder
  name joins with some catalog row with that name. These are the conditions of the
  \<open>WHERE\<close> clause that do not mention the version row.
\<close>

definition resolves :: "DB \<Rightarrow> string \<Rightarrow> string \<Rightarrow> bool" where
  "resolves db catalogName templateName \<longleftrightarrow>
     (\<exists>t \<in> set (catalog_template db). \<exists>c \<in> set (catalog db).
        t_catalog_id t = c_id c \<and> c_name c = catalogName \<and> t_folder_name t = templateName)"

subsection \<open>Example databases\<close>

definition mk_version :: "nat \<Rightarrow> string \<Rightarrow> nat \<Rightarrow> int \<Rightarrow> string \<Rightarrow> VersionModel" where
  "mk_version i env tid revision ver =
     \<lparr>base = \<lparr>ID = i\<rparr>,
      version = zero_Version\<lparr>EnvironmentId := env, TemplateId := tid, Revision := revision,
        VersionString := ver\<rparr>\<rparr>"

text \<open>No catalog and no template at all: no name resolves.\<close>

definition db_unresolved :: DB where
  "db_unresolved = \<lparr>catalog_version = [], catalog_template = [], catalog = []\<rparr>"

text \<open>One catalog with one template that has no version.\<close>

definition db_no_versions :: DB where
  "db_no_versions =
     \<lparr>catalog_version = [],
      catalog_template = [\<lparr>t_id = 1, t_catalog_id = 1, t_folder_name = ''mytemplate''\<rparr>],
      catalog = [\<lparr>c_id = 1, c_name = ''mycatalog''\<rparr>]\<rparr>"

text \<open>
  One catalog with one template and three versions of it, scoped to \<open>env-A\<close>, \<open>env-B\<close>
  and \<open>global\<close>.
\<close>

definition db_scoped :: DB where
  "db_scoped =
     \<lparr>catalog_version =
        [mk_version 1 ''env-A'' 1 1 ''0.1.0'',
         mk_version 2 ''env-B'' 1 2 ''0.2.0'',
         mk_version 3 ''global'' 1 3 ''0.3.0''],
      catalog_template = [\<lparr>t_id = 1, t_catalog_id = 1, t_folder_name = ''mytemplate''\<rparr>],
      catalog = [\<lparr>c_id = 1, c_name = ''mycatalog''\<rparr>]\<rparr>"

text \<open>
  One catalog with two template rows of the same folder name, each with a version of
  revision 1. Ids are unique in every table, the catalog name is unique, and the pairs
  of template id and revision are unique.
\<close>

definition db_twin_templates :: DB where
  "db_twin_templates =
     \<lparr>catalog_version =
        [mk_version 1 ''global'' 1 1 ''0.1.0'',
         mk_version 2 ''global'' 2 1 ''0.1.0''],
      catalog_template =
        [\<lparr>t_id = 1, t_catalog_id = 1, t_folder_name = ''mytemplate''\<rparr>,
         \<lparr>t_id = 2, t_catalog_id = 1, t_folder_name = ''mytemplate''\<rparr>],
      catalog = [\<lparr>c_id = 1, c_name = ''mycatalog''\<rparr>]\<rparr>"

text \<open>
  One catalog with one template, and one version row that equals the zero value in every
  column.
\<close>

definition db_zero_row :: DB where
  "db_zero_row =
     \<lparr>catalog_version = [zero_VersionModel],
      catalog_template = [\<lparr>t_id = 0, t_catalog_id = 0, t_folder_name = ''mytemplate''\<rparr>],
      catalog = [\<lparr>c_id = 0, c_name = ''mycatalog''\<rparr>]\<rparr>"

section \<open>Process start (package cmd)\<close>

subsection \<open>Errors, maps and the outside world\<close>

datatype error = Error string

text \<open>
  A Go map value is \<open>nil\<close> or a table: \<open>None\<close> stands for \<open>nil\<close>. Indexing a \<open>nil\<close> map, or
  a table at a key it does not hold, gives the zero value of the element type; for a map
  of maps that zero value is the \<open>nil\<close> map.
\<close>

type_synonym ('k, 'v) gomap = "('k \<rightharpoonup> 'v) option"

definition index_map ::
  "('k, ('j, 'v) gomap) gomap \<Rightarrow> 'k \<Rightarrow> ('j, 'v) gomap" where
  "index_map m k =
     (case m of None \<Rightarrow> None
      | Some tab \<Rightarrow> (case tab k of None \<Rightarrow> None | Some v \<Rightarrow> v))"

text \<open>
  What \<open>run\<close> calls outside this repository: \<open>ioutil.ReadFile\<close>, \<open>json.Unmarshal\<close> into a
  \<open>map[string]map[string]manager.CatalogConfig\<close>, \<open>gorm.Open\<close> by dialect (the data
  source name built by \<open>formatDSN\<close> is not part of the model), and \<open>http.ListenAndServe\<close>
  by port (the address is the port after a colon). \<open>ListenAndServe\<close> returns only with an
  error: \<open>Some err\<close> stands for a call that returns \<open>err\<close> (a port that is invalid or in
  use, for one), \<open>None\<close> for a call that keeps serving. The type \<open>'c\<close> stands for
  \<open>manager.CatalogConfig\<close>.
\<close>

record 'c world =
  ReadFile :: "string \<Rightarrow> error + string"
  Unmarshal :: "string \<Rightarrow> error + (string, (string, 'c) gomap) gomap"
  Open :: "string \<Rightarrow> error option"
  ListenAndServe :: "int \<Rightarrow> error option"

subsection \<open>Flags and package variables\<close>

text \<open>
  The values given on the command line (or their defaults: 60, 8088, \<open>./cache\<close>,
  \<open>./repo.json\<close>, false, false, false). The five \<open>mysql-*\<close> flags only feed \<open>formatDSN\<close>.
\<close>

record flags =
  refresh_interval_flag :: int
  port_flag :: int
  cache_flag :: string
  config_flag :: string
  validate_flag :: bool
  sqlite_flag :: bool
  migrate_db_flag :: bool

text \<open>The package variables of the \<open>var\<close> block. A Go \<open>int\<close> is taken as 64 bits wide.\<close>

record globals =
  refreshInterval :: "64 word"
  port :: int
  cacheRoot :: string
  configFile :: string
  validateOnly :: bool
  sqlite :: bool
  migrateDb :: bool

text \<open>
  The package variables once the flags are parsed. \<open>init\<close> registers \<open>port\<close>, \<open>cache\<close>,
  \<open>config\<close>, \<open>validate\<close>, \<open>sqlite\<close> and \<open>migrate-db\<close> with the address of their variable
  (\<open>IntVarP\<close>, \<open>StringVar\<close>, \<open>BoolVar\<close>), so parsing stores the flag there. \<open>refresh-interval\<close>
  is registered with \<open>Int\<close>, which allocates its own storage, and bound to a viper key that
  nothing reads: the variable \<open>refreshInterval\<close> is assigned nowhere and keeps its zero
  value.
\<close>

definition bind_flags :: "flags \<Rightarrow> globals" where
  "bind_flags f =
     \<lparr>refreshInterval = 0,
      port = port_flag f,
      cacheRoot = cache_flag f,
      configFile = config_flag f,
      validateOnly = validate_flag f,
      sqlite = sqlite_flag f,
      migrateDb = migrate_db_flag f\<rparr>"

subsection \<open>\<open>readConfig\<close> and \<open>run\<close>\<close>

definition readConfig :: "'c world \<Rightarrow> string \<Rightarrow> error + (string, 'c) gomap" where
  "readConfig w file =
     (case ReadFile w file of
        Inl err \<Rightarrow> Inl err
      | Inr configContents \<Rightarrow>
          (case Unmarshal w configContents of
             Inl err \<Rightarrow> Inl err
           | Inr config \<Rightarrow> Inr (index_map config ''catalogs'')))"

text \<open>
  What \<open>run\<close> has set up when it stops returning errors: whether the tables were
  migrated, the configuration handed to \<open>manager.NewManager\<close>, and the arguments of the
  \<open>refresh\<close> goroutine.
\<close>

record 'c startup =
  migrated :: bool
  manager_config :: "(string, 'c) gomap"
  refresh_interval_arg :: "64 word"
  validate_arg :: bool

text \<open>
  How \<open>run\<close> ends: \<open>log.Fatal\<close> with an error (the process exits with status 1), blocked
  in \<open>select {}\<close> while the \<open>refresh\<close> goroutine validates, or serving HTTP on a port.
  The last statement of \<open>run\<close> is \<open>log.Fatal(http.ListenAndServe(...))\<close>: the process serves
  as long as \<open>ListenAndServe\<close> does not return, and is fatal with its error when it does.
\<close>

datatype 'c process = Fatal error | Blocked "'c startup" | Serving int "'c startup"

definition run :: "'c world \<Rightarrow> globals \<Rightarrow> 'c process" where
  "run w g =
     (case readConfig w (configFile g) of
        Inl err \<Rightarrow> Fatal err
      | Inr config \<Rightarrow>
          (case Open w (if sqlite g then ''sqlite3'' else ''mysql'') of
             Some err \<Rightarrow> Fatal err
           | None \<Rightarrow>
               (let st = \<lparr>migrated = (sqlite g \<or> migrateDb g),
                          manager_config = config,
                          refresh_interval_arg = refreshInterval g,
                          validate_arg = validateOnly g\<rparr>
                in if validateOnly g then Blocked st
                   else (case ListenAndServe w (port g) of
                           Some err \<Rightarrow> Fatal err
                         | None \<Rightarrow> Serving (port g) st))))"

subsection \<open>\<open>refresh\<close>\<close>

text \<open>
  \<open>time.Second\<close> in nanoseconds; a \<open>time.Duration\<close> is an \<open>int64\<close>, so the product
  wraps around.
\<close>

definition Second :: "64 word" where
  "Second = 1000000000"

text \<open>
  \<open>time.Tick d\<close> returns the \<open>nil\<close> channel (\<open>None\<close>) when \<open>d \<le> 0\<close> and the channel of
  a ticker of period \<open>d\<close> otherwise.
\<close>

definition Tick :: "64 word \<Rightarrow> 64 word option" where
  "Tick d = (if sint d \<le> 0 then None else Some d)"

text \<open>
  How the \<open>refresh\<close> goroutine goes on: \<open>log.Fatalf\<close> (the whole process exits with status
  1), \<open>os.Exit\<close> with a status, or the loop over the tick channel.
\<close>

datatype refreshing = Fatalf string error | Exit int | Loop "64 word option"

text \<open>
  The first two arguments are what \<open>m.CreateConfigCatalogs()\<close> and the first
  \<open>m.RefreshAll()\<close> return (\<open>None\<close> for a \<open>nil\<close> error); the bodies of both are in
  package \<open>manager\<close> and are not modelled.
\<close>

definition refresh :: "error option \<Rightarrow> error option \<Rightarrow> 64 word \<Rightarrow> bool \<Rightarrow> refreshing" where
  "refresh CreateConfigCatalogs RefreshAll interval validate =
     (case CreateConfigCatalogs of
        Some err \<Rightarrow> Fatalf ''Failed to create catalogs from config file: '' err
      | None \<Rightarrow>
          (case RefreshAll of
             Some err \<Rightarrow> Fatalf ''Failed to do initial refresh of catalogs: '' err
           | None \<Rightarrow> if validate then Exit 0 else Loop (Tick (interval * Second))))"

text \<open>
  The number of iterations of \<open>for range ch\<close> begun once \<open>elapsed\<close> nanoseconds have passed
  since the loop was entered: none on the \<open>nil\<close> channel, which never delivers, and one
  per full period otherwise. Every iteration runs \<open>go m.RefreshAll()\<close> once.
\<close>

definition ticks_by :: "64 word option \<Rightarrow> nat \<Rightarrow> nat" where
  "ticks_by ch elapsed = (case ch of None \<Rightarrow> 0 | Some d \<Rightarrow> elapsed div unat d)"

definition launches_by :: "refreshing \<Rightarrow> nat \<Rightarrow> nat" where
  "launches_by r elapsed = (case r of Loop ch \<Rightarrow> ticks_by ch elapsed | _ \<Rightarrow> 0)"

subsection \<open>Example worlds\<close>

text \<open>No file can be read.\<close>

definition world_no_file :: "unit world" where
  "world_no_file =
     \<lparr>ReadFile = (\<lambda>file. Inl (Error ''open: no such file or directory'')),
      Unmarshal = (\<lambda>contents. Inr None),
      Open = (\<lambda>dialect. None),
      ListenAndServe = (\<lambda>p. None)\<rparr>"

text \<open>
  \<open>./repo.json\<close> holds \<open>{}\<close> and \<open>./bad.json\<close> holds \<open>[\<close>. Of the two contents only \<open>{}\<close>
  unmarshals, to a map with no key. The database opens. Listening succeeds on the ports
  from 1 to 65535 and returns an error on any other number.
\<close>

definition world_files :: "unit world" where
  "world_files =
     \<lparr>ReadFile = (\<lambda>file. if file = ''./repo.json'' then Inr ''{}''
                   else if file = ''./bad.json'' then Inr ''[''
                   else Inl (Error ''open: no such file or directory'')),
      Unmarshal = (\<lambda>contents. if contents = ''{}'' then Inr (Some Map.empty)
                   else Inl (Error ''unexpected end of JSON input'')),
      Open = (\<lambda>dialect. None),
      ListenAndServe = (\<lambda>p. if 1 \<le> p \<and> p \<le> 65535 then None
                         else Some (Error ''listen tcp: invalid port''))\<rparr>"

definition default_flags :: flags where
  "default_flags =
     \<lparr>refresh_interval_flag = 60, port_flag = 8088, cache_flag = ''./cache'',
      config_flag = ''./repo.json'', validate_flag = False, sqlite_flag = False,
      migrate_db_flag = False\<rparr>"

section \<open>Properties of the read model\<close>

subsection \<open>Auxiliary facts\<close>

lemma foldl_snoc_map: "foldl (\<lambda>acc x. acc @ [f x]) acc xs = acc @ map f xs"
  by (induction xs arbitrary: acc) simp_all

lemma LookupVersions_map:
  "LookupVersions db e cn tn = map version (raw_versions db e cn tn)"
  by (simp add: LookupVersions_def foldl_snoc_map)

lemma set_raw_versions:
  "set (raw_versions db e cn tn) =
     {v \<in> set (catalog_version db).
        \<exists>t \<in> set (catalog_template db). \<exists>c \<in> set (catalog db). where_versions e cn tn v t c}"
  by (auto simp: raw_versions_def split: if_splits)

lemma Scan_struct_last: "Scan_struct d rows = (if rows = [] then d else last rows)"
  unfolding Scan_struct_def by (induction rows arbitrary: d) simp_all

lemma where_versions_resolves:
  "where_versions e cn tn v t c \<Longrightarrow> t \<in> set (catalog_template db) \<Longrightarrow> c \<in> set (catalog db)
     \<Longrightarrow> resolves db cn tn"
  by (auto simp: where_versions_def resolves_def)

lemma raw_versions_unresolved: "\<not> resolves db cn tn \<Longrightarrow> raw_versions db e cn tn = []"
  by (auto simp: raw_versions_def dest: where_versions_resolves)

lemma raw_version_unresolved: "\<not> resolves db cn tn \<Longrightarrow> raw_version db e cn tn r = []"
  by (auto simp: raw_version_def dest: where_versions_resolves)

lemma raw_versions_Nil_iff:
  "raw_versions db e cn tn = [] \<longleftrightarrow>
     \<not> (\<exists>v \<in> set (catalog_version db). \<exists>t \<in> set (catalog_template db). \<exists>c \<in> set (catalog db).
          where_versions e cn tn v t c)"
  using set_raw_versions [of db e cn tn] by (auto simp flip: set_empty)

text \<open>
  A concatenation has at most one element when every piece has at most one and all the
  non-empty pieces sit at the same key of a list with distinct keys.
\<close>

lemma concat_at_most_one:
  assumes "distinct (map f xs)"
    and "\<And>x y. x \<in> set xs \<Longrightarrow> y \<in> set xs \<Longrightarrow> g x \<noteq> [] \<Longrightarrow> g y \<noteq> [] \<Longrightarrow> f x = f y"
    and "\<And>x. x \<in> set xs \<Longrightarrow> length (g x) \<le> 1"
  shows "length (concat (map g xs)) \<le> 1"
  using assms
proof (induction xs)
  case Nil
  then show ?case by simp
next
  case (Cons x xs)
  show ?case
  proof (cases "g x = []")
    case True
    with Cons show ?thesis by simp
  next
    case False
    have "g y = []" if "y \<in> set xs" for y
    proof (rule ccontr)
      assume "g y \<noteq> []"
      with False that Cons.prems(2)[of x y] have "f x = f y" by simp
      with that Cons.prems(1) show False by force
    qed
    then have e: "concat (map g xs) = []" by simp
    have "length (g x) \<le> 1" using Cons.prems(3)[of x] by simp
    then show ?thesis by (simp add: e)
  qed
qed

subsection \<open>\<open>LookupVersions\<close>\<close>

text \<open>
  Claim C3. For every environment id, catalog name and template name, \<open>LookupVersions\<close>
  returns exactly the persisted versions that belong to a template row of that folder
  name in a catalog row of that name and whose environment id is the given one or
  \<open>global\<close>; no returned version carries any other environment id.
\<close>

theorem LookupVersions_environment_scoping:
  "set (LookupVersions db environmentId catalogName templateName) =
     version ` {v \<in> set (catalog_version db).
        (EnvironmentId (version v) = environmentId \<or> EnvironmentId (version v) = ''global'') \<and>
        (\<exists>t \<in> set (catalog_template db). \<exists>c \<in> set (catalog db).
           TemplateId (version v) = t_id t \<and> t_catalog_id t = c_id c \<and>
           c_name c = catalogName \<and> t_folder_name t = templateName)}
   \<and> (\<forall>x \<in> set (LookupVersions db environmentId catalogName templateName).
        EnvironmentId x = environmentId \<or> EnvironmentId x = ''global'')"
proof -
  have "set (raw_versions db environmentId catalogName templateName) =
     {v \<in> set (catalog_version db).
        (EnvironmentId (version v) = environmentId \<or> EnvironmentId (version v) = ''global'') \<and>
        (\<exists>t \<in> set (catalog_template db). \<exists>c \<in> set (catalog db).
           TemplateId (version v) = t_id t \<and> t_catalog_id t = c_id c \<and>
           c_name c = catalogName \<and> t_folder_name t = templateName)}"
    unfolding set_raw_versions where_versions_def by blast
  then show ?thesis
    unfolding LookupVersions_map set_map by auto
qed

text \<open>
  Claim C3, at the database with one version each for \<open>env-A\<close>, \<open>env-B\<close> and \<open>global\<close>:
  the query for \<open>env-A\<close> returns the first and the third, and not the second.
\<close>

theorem LookupVersions_environment_scoping_witness:
  "LookupVersions db_scoped ''env-A'' ''mycatalog'' ''mytemplate'' =
     [version (mk_version 1 ''env-A'' 1 1 ''0.1.0''), version (mk_version 3 ''global'' 1 3 ''0.3.0'')]
   \<and> version (mk_version 2 ''env-B'' 1 2 ''0.2.0'')
        \<notin> set (LookupVersions db_scoped ''env-A'' ''mycatalog'' ''mytemplate'')"
proof -
  have rows: "LookupVersions db_scoped ''env-A'' ''mycatalog'' ''mytemplate'' =
     [version (mk_version 1 ''env-A'' 1 1 ''0.1.0''), version (mk_version 3 ''global'' 1 3 ''0.3.0'')]"
    by (simp add: LookupVersions_map raw_versions_def db_scoped_def where_versions_def
        mk_version_def)
  have scoped: "\<forall>x \<in> set (LookupVersions db_scoped ''env-A'' ''mycatalog'' ''mytemplate'').
        EnvironmentId x = ''env-A'' \<or> EnvironmentId x = ''global''"
    using LookupVersions_environment_scoping
      [of db_scoped "''env-A''" "''mycatalog''" "''mytemplate''"]
    by (rule conjunct2)
  have "EnvironmentId (version (mk_version 2 ''env-B'' 1 2 ''0.2.0'')) = ''env-B''"
    by (simp add: mk_version_def)
  with scoped have "version (mk_version 2 ''env-B'' 1 2 ''0.2.0'')
        \<notin> set (LookupVersions db_scoped ''env-A'' ''mycatalog'' ''mytemplate'')"
    by auto
  with rows show ?thesis by blast
qed

text \<open>
  Claim C4. \<open>LookupVersions\<close> returns a list of versions and has no error result, so it
  fails on no input, and in particular not when the names resolve. It returns the empty
  result whenever no version row satisfies the \<open>WHERE\<close> clause with a template row and a
  catalog row, which covers a resolved template without visible versions. A catalog or
  template name that does not resolve is surfaced as the empty result as well.
\<close>

theorem LookupVersions_empty_without_error:
  "(\<not> resolves db catalogName templateName
      \<longrightarrow> LookupVersions db environmentId catalogName templateName = [])
   \<and> (\<not> (\<exists>v \<in> set (catalog_version db). \<exists>t \<in> set (catalog_template db).
            \<exists>c \<in> set (catalog db). where_versions environmentId catalogName templateName v t c)
      \<longrightarrow> LookupVersions db environmentId catalogName templateName = [])"
  by (simp add: LookupVersions_map raw_versions_unresolved raw_versions_Nil_iff)

text \<open>
  Claim C4, at a database where the name resolves to a template without versions, and
  at a database without catalogs, where the name does not resolve.
\<close>

theorem LookupVersions_empty_without_error_witness:
  "\<not> resolves db_unresolved ''mycatalog'' ''mytemplate''
   \<and> LookupVersions db_unresolved ''env-A'' ''mycatalog'' ''mytemplate'' = []
   \<and> resolves db_no_versions ''mycatalog'' ''mytemplate''
   \<and> \<not> (\<exists>v \<in> set (catalog_version db_no_versions).
          \<exists>t \<in> set (catalog_template db_no_versions). \<exists>c \<in> set (catalog db_no_versions).
            where_versions ''env-A'' ''mycatalog'' ''mytemplate'' v t c)
   \<and> LookupVersions db_no_versions ''env-A'' ''mycatalog'' ''mytemplate'' = []"
proof -
  have a: "\<not> resolves db_unresolved ''mycatalog'' ''mytemplate''"
    by (simp add: resolves_def db_unresolved_def)
  have b: "\<not> (\<exists>v \<in> set (catalog_version db_no_versions).
        \<exists>t \<in> set (catalog_template db_no_versions). \<exists>c \<in> set (catalog db_no_versions).
          where_versions ''env-A'' ''mycatalog'' ''mytemplate'' v t c)"
    by (simp add: db_no_versions_def)
  have c: "resolves db_no_versions ''mycatalog'' ''mytemplate''"
    by (simp add: resolves_def db_no_versions_def)
  from a b c
    LookupVersions_empty_without_error
      [of db_unresolved "''mycatalog''" "''mytemplate''" "''env-A''"]
    LookupVersions_empty_without_error
      [of db_no_versions "''mycatalog''" "''mytemplate''" "''env-A''"]
  show ?thesis by blast
qed

subsection \<open>\<open>LookupVersionModel\<close>\<close>

text \<open>
  Claim C5, as stated, fails: where the catalog does not resolve, \<open>LookupVersionModel\<close>
  does not report NotFound and does not return an absent result (\<open>nil\<close>); it returns a
  pointer to the zero-valued \<open>VersionModel\<close>.
\<close>

theorem LookupVersionModel_unresolved_counterexample:
  "\<not> resolves db_unresolved ''mycatalog'' ''mytemplate''
   \<and> LookupVersionModel db_unresolved ''env-A'' ''mycatalog'' ''mytemplate'' 1 \<noteq> None
   \<and> LookupVersionModel db_unresolved ''env-A'' ''mycatalog'' ''mytemplate'' 1 =
       Some zero_VersionModel"
  by (simp add: resolves_def LookupVersionModel_def raw_version_def Scan_struct_def
      db_unresolved_def)

text \<open>
  Claim C5, amended. Whenever the requested catalog or template does not resolve,
  \<open>LookupVersionModel\<close> returns a pointer to the zero-valued \<open>VersionModel\<close>: it neither
  fails nor returns \<open>nil\<close>.
\<close>

theorem LookupVersionModel_unresolved_zero:
  "\<not> resolves db catalogName templateName \<Longrightarrow>
     LookupVersionModel db environmentId catalogName templateName revision =
       Some zero_VersionModel"
  by (simp add: LookupVersionModel_def raw_version_unresolved Scan_struct_def)

text \<open>
  Claim C5, amended, at a catalog that exists, asked for a template it does not have.
\<close>

theorem LookupVersionModel_unresolved_zero_witness:
  "\<not> resolves db_no_versions ''mycatalog'' ''nosuchtemplate''
   \<and> LookupVersionModel db_no_versions ''env-A'' ''mycatalog'' ''nosuchtemplate'' 1 =
       Some zero_VersionModel"
proof -
  have a: "\<not> resolves db_no_versions ''mycatalog'' ''nosuchtemplate''"
    by (simp add: resolves_def db_no_versions_def)
  from a LookupVersionModel_unresolved_zero [OF a, of "''env-A''" 1] show ?thesis by simp
qed

text \<open>
  Claim C10. For every input \<open>LookupVersionModel\<close> returns a pointer that is not \<open>nil\<close>.
  When no row matches, the record behind it is the zero value. The result is the zero
  value exactly when no row matches or the last matching row is itself zero-valued, so
  the two cases cannot be told apart from the result.
\<close>

theorem LookupVersionModel_never_nil:
  "LookupVersionModel db environmentId catalogName templateName revision \<noteq> None
   \<and> (raw_version db environmentId catalogName templateName revision = [] \<longrightarrow>
        LookupVersionModel db environmentId catalogName templateName revision =
          Some zero_VersionModel)
   \<and> (LookupVersionModel db environmentId catalogName templateName revision =
          Some zero_VersionModel
        \<longleftrightarrow> raw_version db environmentId catalogName templateName revision = []
          \<or> last (raw_version db environmentId catalogName templateName revision) =
              zero_VersionModel)"
  by (simp add: LookupVersionModel_def Scan_struct_last)

text \<open>
  Claim C10, at a database where nothing matches and at a database whose only matching
  row is zero-valued: the result is the same.
\<close>

theorem LookupVersionModel_never_nil_witness:
  "raw_version db_unresolved ''env-A'' ''mycatalog'' ''mytemplate'' 1 = []
   \<and> LookupVersionModel db_unresolved ''env-A'' ''mycatalog'' ''mytemplate'' 1 =
       Some zero_VersionModel
   \<and> raw_version db_zero_row [] ''mycatalog'' ''mytemplate'' 0 = [zero_VersionModel]
   \<and> LookupVersionModel db_zero_row [] ''mycatalog'' ''mytemplate'' 0 = Some zero_VersionModel"
proof -
  have a: "raw_version db_unresolved ''env-A'' ''mycatalog'' ''mytemplate'' 1 = []"
    by (simp add: raw_version_def db_unresolved_def)
  have b: "raw_version db_zero_row [] ''mycatalog'' ''mytemplate'' 0 = [zero_VersionModel]"
    by (simp add: raw_version_def db_zero_row_def where_versions_def zero_VersionModel_def
        zero_Version_def)
  from a b
    LookupVersionModel_never_nil [of db_unresolved "''env-A''" "''mycatalog''" "''mytemplate''" 1]
    LookupVersionModel_never_nil [of db_zero_row "[]" "''mycatalog''" "''mytemplate''" 0]
  show ?thesis by simp
qed

text \<open>
  Claim C6, as stated, fails: with unique catalog names and unique pairs of template id
  and revision (and unique ids in every table), two version rows match one query when
  two template rows of the catalog share a folder name.
\<close>

theorem raw_version_twin_templates_counterexample:
  "distinct (map c_name (catalog db_twin_templates))
   \<and> distinct (map (\<lambda>v. (TemplateId (version v), Revision (version v)))
        (catalog_version db_twin_templates))
   \<and> distinct (map c_id (catalog db_twin_templates))
   \<and> distinct (map t_id (catalog_template db_twin_templates))
   \<and> distinct (map (\<lambda>v. ID (base v)) (catalog_version db_twin_templates))
   \<and> length (raw_version db_twin_templates ''env-A'' ''mycatalog'' ''mytemplate'' 1) = 2"
  by (simp add: db_twin_templates_def raw_version_def where_versions_def mk_version_def)

text \<open>
  Claim C6, amended. For every environment id, catalog name, template name and revision,
  at most one version row matches the query of \<open>LookupVersionModel\<close>, given that catalog
  names are unique, pairs of template id and revision are unique, and folder names are
  unique among the templates of one catalog.
\<close>

theorem raw_version_at_most_one:
  assumes cat: "distinct (map c_name (catalog db))"
    and ver: "distinct (map (\<lambda>v. (TemplateId (version v), Revision (version v)))
      (catalog_version db))"
    and tmpl: "distinct (map (\<lambda>t. (t_catalog_id t, t_folder_name t)) (catalog_template db))"
  shows "length (raw_version db e cn tn r) \<le> 1"
proof -
  let ?gc = "\<lambda>v t c.
    if where_versions e cn tn v t c \<and> Revision (version v) = r then [v] else []"
  let ?gt = "\<lambda>v t. concat (map (?gc v t) (catalog db))"
  let ?gv = "\<lambda>v. concat (map (?gt v) (catalog_template db))"
  have inner: "length (?gt v t) \<le> 1" for v t
    by (rule concat_at_most_one [OF cat]) (auto simp: where_versions_def split: if_splits)
  have gtD: "\<exists>c \<in> set (catalog db). where_versions e cn tn v t c \<and> Revision (version v) = r"
    if "?gt v t \<noteq> []" for v t
    using that by (auto split: if_splits)
  have same_cat: "c = c'"
    if "c \<in> set (catalog db)" "c' \<in> set (catalog db)" "c_name c = c_name c'" for c c'
    using that cat by (meson distinct_map inj_onD)
  have middle: "length (?gv v) \<le> 1" for v
  proof (rule concat_at_most_one [OF tmpl])
    fix x y
    assume "x \<in> set (catalog_template db)" "y \<in> set (catalog_template db)"
      "?gt v x \<noteq> []" "?gt v y \<noteq> []"
    then obtain c c' where "c \<in> set (catalog db)" "c' \<in> set (catalog db)"
      "where_versions e cn tn v x c" "where_versions e cn tn v y c'"
      using gtD by blast
    then show "(t_catalog_id x, t_folder_name x) = (t_catalog_id y, t_folder_name y)"
      using same_cat [of c c'] by (auto simp: where_versions_def)
  next
    fix x
    show "length (?gt v x) \<le> 1" by (rule inner)
  qed
  have gvD: "\<exists>t \<in> set (catalog_template db). \<exists>c \<in> set (catalog db).
      where_versions e cn tn v t c \<and> Revision (version v) = r"
    if "?gv v \<noteq> []" for v
    using that by (auto split: if_splits)
  have same_tmpl: "t = t'"
    if "t \<in> set (catalog_template db)" "t' \<in> set (catalog_template db)"
      "t_catalog_id t = t_catalog_id t'" "t_folder_name t = t_folder_name t'" for t t'
  proof -
    have "inj_on (\<lambda>t. (t_catalog_id t, t_folder_name t)) (set (catalog_template db))"
      using tmpl by (simp add: distinct_map)
    then show ?thesis using that by (auto dest: inj_onD)
  qed
  have outer: "length (concat (map ?gv (catalog_version db))) \<le> 1"
  proof (rule concat_at_most_one [OF ver])
    fix x y
    assume "x \<in> set (catalog_version db)" "y \<in> set (catalog_version db)"
      "?gv x \<noteq> []" "?gv y \<noteq> []"
    then obtain t c t' c' where m:
      "t \<in> set (catalog_template db)" "c \<in> set (catalog db)"
      "t' \<in> set (catalog_template db)" "c' \<in> set (catalog db)"
      "where_versions e cn tn x t c" "Revision (version x) = r"
      "where_versions e cn tn y t' c'" "Revision (version y) = r"
      using gvD [of x] gvD [of y] by blast
    then have "c = c'" using same_cat [of c c'] by (simp add: where_versions_def)
    with m have "t = t'" using same_tmpl [of t t'] by (simp add: where_versions_def)
    with m show "(TemplateId (version x), Revision (version x)) =
        (TemplateId (version y), Revision (version y))"
      by (simp add: where_versions_def)
  next
    fix x
    show "length (?gv x) \<le> 1" by (rule middle)
  qed
  then show ?thesis by (simp add: raw_version_def)
qed

text \<open>
  Claim C6, amended, at the database of three versions: the three uniqueness conditions
  hold and the query for revision 3 matches one row.
\<close>

theorem raw_version_at_most_one_witness:
  "distinct (map c_name (catalog db_scoped))
   \<and> distinct (map (\<lambda>v. (TemplateId (version v), Revision (version v)))
        (catalog_version db_scoped))
   \<and> distinct (map (\<lambda>t. (t_catalog_id t, t_folder_name t)) (catalog_template db_scoped))
   \<and> raw_version db_scoped ''env-A'' ''mycatalog'' ''mytemplate'' 3 =
        [mk_version 3 ''global'' 1 3 ''0.3.0'']
   \<and> length (raw_version db_scoped ''env-A'' ''mycatalog'' ''mytemplate'' 3) \<le> 1"
proof -
  have a: "distinct (map c_name (catalog db_scoped))"
    by (simp add: db_scoped_def)
  have b: "distinct (map (\<lambda>v. (TemplateId (version v), Revision (version v)))
      (catalog_version db_scoped))"
    by (simp add: db_scoped_def mk_version_def)
  have c: "distinct (map (\<lambda>t. (t_catalog_id t, t_folder_name t)) (catalog_template db_scoped))"
    by (simp add: db_scoped_def)
  have d: "raw_version db_scoped ''env-A'' ''mycatalog'' ''mytemplate'' 3 =
      [mk_version 3 ''global'' 1 3 ''0.3.0'']"
    by (simp add: raw_version_def db_scoped_def where_versions_def mk_version_def)
  from a b c d
    raw_version_at_most_one [OF a b c, of "''env-A''" "''mycatalog''" "''mytemplate''" 3]
  show ?thesis by blast
qed

section \<open>Properties of process start\<close>

subsection \<open>Configuration\<close>

text \<open>
  Claim C8. When the configuration file cannot be read, or its contents do not unmarshal
  into the expected mapping, \<open>readConfig\<close> returns that error and \<open>run\<close> ends in
  \<open>log.Fatal\<close> with it: the database is not opened and nothing is served.
\<close>

theorem config_error_is_fatal:
  assumes "ReadFile w (configFile g) = Inl err
     \<or> (\<exists>contents. ReadFile w (configFile g) = Inr contents \<and> Unmarshal w contents = Inl err)"
  shows "readConfig w (configFile g) = Inl err \<and> run w g = Fatal err"
  using assms by (auto simp: readConfig_def run_def)

text \<open>
  Claim C8, at a world where the default file \<open>./repo.json\<close> is missing, and at a world
  where \<open>--config ./bad.json\<close> names a file that holds \<open>[\<close>.
\<close>

theorem config_error_is_fatal_witness:
  "ReadFile world_no_file (configFile (bind_flags default_flags)) =
     Inl (Error ''open: no such file or directory'')
   \<and> run world_no_file (bind_flags default_flags) =
       Fatal (Error ''open: no such file or directory'')
   \<and> ReadFile world_files
       (configFile (bind_flags (default_flags\<lparr>config_flag := ''./bad.json''\<rparr>))) = Inr ''[''
   \<and> Unmarshal world_files ''['' = Inl (Error ''unexpected end of JSON input'')
   \<and> run world_files (bind_flags (default_flags\<lparr>config_flag := ''./bad.json''\<rparr>)) =
       Fatal (Error ''unexpected end of JSON input'')"
proof -
  have a: "ReadFile world_no_file (configFile (bind_flags default_flags)) =
     Inl (Error ''open: no such file or directory'')"
    by (simp add: world_no_file_def)
  have b: "ReadFile world_files
      (configFile (bind_flags (default_flags\<lparr>config_flag := ''./bad.json''\<rparr>))) = Inr ''[''"
    by (simp add: world_files_def bind_flags_def default_flags_def)
  have c: "Unmarshal world_files ''['' = Inl (Error ''unexpected end of JSON input'')"
    by (simp add: world_files_def)
  from a b c
    config_error_is_fatal [of world_no_file "bind_flags default_flags"
      "Error ''open: no such file or directory''"]
    config_error_is_fatal [of world_files
      "bind_flags (default_flags\<lparr>config_flag := ''./bad.json''\<rparr>)"
      "Error ''unexpected end of JSON input''"]
  show ?thesis by blast
qed



subsection \<open>The \<open>refresh\<close> goroutine\<close>

text \<open>
  Claim C2, as stated, fails: outside validate-only mode, an error of the initial
  \<open>RefreshAll\<close> ends the whole process through \<open>log.Fatalf\<close>; startup does not continue.
\<close>

theorem initial_refresh_failure_counterexample:
  "refresh None (Some (Error ''fetch failed'')) 60 False =
     Fatalf ''Failed to do initial refresh of catalogs: '' (Error ''fetch failed'')"
  by (simp add: refresh_def)

text \<open>
  Claim C2, amended. An error returned by the initial \<open>RefreshAll\<close> is fatal to the whole
  process whether or not it runs in validate-only mode. The mode only decides what
  follows an initial pass without error: exit with status 0 in validate-only mode, the
  tick loop otherwise.
\<close>

theorem initial_refresh_failure_fatal_in_every_mode:
  "refresh None (Some err) interval validate =
     Fatalf ''Failed to do initial refresh of catalogs: '' err
   \<and> refresh None None interval True = Exit 0
   \<and> refresh None None interval False = Loop (Tick (interval * Second))"
  by (simp add: refresh_def)

text \<open>
  For comparison with the next theorem: an interval of 60 gives a ticker of sixty
  seconds, and three iterations have begun after three minutes.
\<close>

lemma Tick_sixty_seconds: "Tick (60 * Second) = Some 60000000000"
  by (simp add: Tick_def Second_def)

lemma refresh_ticks_on_positive_interval:
  "launches_by (refresh None None 60 False) (180 * 1000000000) = 3"
  by (simp add: refresh_def launches_by_def ticks_by_def Tick_sixty_seconds)

text \<open>
  Claim C7 does not hold of the code. Whatever \<open>--refresh-interval\<close> is given, the
  variable \<open>refreshInterval\<close> is 0 when \<open>run\<close> passes it to \<open>refresh\<close>; with the default
  flags and a readable configuration \<open>run\<close> starts the goroutine with interval 0. After
  an initial pass without error \<open>refresh\<close> then loops over \<open>time.Tick 0\<close>, the \<open>nil\<close>
  channel, and no iteration ever begins: no refresh is launched after the initial pass.
\<close>

theorem refresh_interval_never_ticks:
  "refreshInterval (bind_flags f) = 0
   \<and> run world_files (bind_flags default_flags) =
       Serving 8088 \<lparr>migrated = False, manager_config = None, refresh_interval_arg = 0,
         validate_arg = False\<rparr>
   \<and> refresh None None (refreshInterval (bind_flags f)) False = Loop None
   \<and> launches_by (refresh None None (refreshInterval (bind_flags f)) False) elapsed = 0"
  by (simp add: bind_flags_def refresh_def Tick_def launches_by_def ticks_by_def run_def
      readConfig_def index_map_def world_files_def default_flags_def)

end
